theory Spec2Isabelle
  imports Main
begin

section \<open>The menu editor of Kando (src/renderer/editor/editor.ts)\<close>

text \<open>
  The class \<^verbatim>\<open>Editor\<close> coordinates five opaque sub-components, toggles two CSS classes
  on its container element and moves a settings object between the host process and the
  components. The embedding keeps the fields the class reads and writes, records every
  call that leaves the class (on a component, on \<^verbatim>\<open>window.api.menuSettings\<close>, on its own
  event listeners) in a trace, and keeps the settings objects in a store, because the
  components edit the very object the editor later sends back.
\<close>

subsection \<open>Data\<close>

text \<open>
  \<^verbatim>\<open>IMenuSettings\<close> is declared in \<^verbatim>\<open>../../common\<close>. The editor reads the array \<^verbatim>\<open>menus\<close> of
  a settings object and reads and writes the field \<^verbatim>\<open>nodes\<close> of each menu. The type of a
  node and the remaining fields of both objects are parameters.
\<close>

record ('n, 'm) IMenu =
  nodes :: 'n
  menuFields :: 'm

record ('n, 'm, 's) IMenuSettings =
  menus :: "('n, 'm) IMenu list"
  settingsFields :: 's

text \<open>
  The five components. Each is created once by the constructor and never replaced; the
  model names a component by its tag and records the calls made on it.
\<close>

datatype component = Background | Preview | Properties | Sidebar | Toolbar

text \<open>A child of the container: the root element of a component, or an element that was
  there before the editor was created.\<close>

datatype node = ContainerOf component | OtherNode nat

record HTMLElement =
  classList :: "string list"
  childNodes :: "node list"

text \<open>The two host calls a pending \<^verbatim>\<open>Promise.all\<close> waits for.\<close>

datatype host_call = MenuSettingsGet | MenuSettingsGetCurrentMenu

type_synonym addr = nat

text \<open>
  Everything the editor does to the outside. An argument that is an object handed to a
  component is recorded by its content at the time of the call. The argument of
  \<^verbatim>\<open>window.api.menuSettings.set\<close> is the value of the field \<^verbatim>\<open>menuSettings\<close>, which may be
  \<^verbatim>\<open>null\<close> (\<open>None\<close>); otherwise it is a reference together with the content that is
  serialised for the host.
\<close>

datatype ('n, 'm, 's) effect =
    Create component
  | InitTooltips
  | ApiMenuSettingsGet
  | ApiMenuSettingsGetCurrentMenu
  | ApiMenuSettingsSet "(addr \<times> ('n, 'm, 's) IMenuSettings) option"
  | SidebarSetVisibility bool
  | PreviewSetMenu "('n, 'm) IMenu option"
  | PreviewShow
  | PreviewHide
  | PropertiesShow
  | PropertiesHide
  | ToolbarSetMenus "('n, 'm) IMenu list" int
  | Emit string

text \<open>
  The state: the fields \<^verbatim>\<open>container\<close> and \<^verbatim>\<open>menuSettings\<close> of the class (\<open>None\<close> is \<^verbatim>\<open>null\<close>),
  the store of settings objects with its allocation counter, the joins registered by
  \<^verbatim>\<open>Promise.all(...).then(...)\<close> whose callback has not run yet, and the trace.
\<close>

record ('n, 'm, 's) editor =
  container :: HTMLElement
  menuSettings :: "addr option"
  heap :: "addr \<Rightarrow> ('n, 'm, 's) IMenuSettings"
  nextAddr :: addr
  pending :: "host_call list list"
  trace :: "('n, 'm, 's) effect list"

datatype error = TypeError

text \<open>The events of the toolbar for which the constructor registers a handler.\<close>

datatype toolbar_event =
    TbEnterEditMode | TbLeaveEditMode | TbExpand | TbCollapse | TbSelectMenu int

subsection \<open>The DOM operations used\<close>

text \<open>\<^verbatim>\<open>DOMTokenList\<close> is an ordered set of tokens: \<^verbatim>\<open>add\<close> appends a token that is not
  there, \<^verbatim>\<open>remove\<close> deletes it.\<close>

definition classList_add :: "string \<Rightarrow> HTMLElement \<Rightarrow> HTMLElement" where
  "classList_add t e =
     (if t \<in> set (classList e) then e else e\<lparr>classList := classList e @ [t]\<rparr>)"

definition classList_remove :: "string \<Rightarrow> HTMLElement \<Rightarrow> HTMLElement" where
  "classList_remove t e = e\<lparr>classList := removeAll t (classList e)\<rparr>"

definition classList_contains :: "string \<Rightarrow> HTMLElement \<Rightarrow> bool" where
  "classList_contains t e = (t \<in> set (classList e))"

text \<open>The element appended is always a newly created one, so it goes to the end.\<close>

definition appendChild :: "node \<Rightarrow> HTMLElement \<Rightarrow> HTMLElement" where
  "appendChild n e = e\<lparr>childNodes := childNodes e @ [n]\<rparr>"

text \<open>JavaScript's \<^verbatim>\<open>xs[i]\<close>: \<^verbatim>\<open>undefined\<close> (\<open>None\<close>) outside the array.\<close>

definition array_get :: "'a list \<Rightarrow> int \<Rightarrow> 'a option" where
  "array_get xs i = (if 0 \<le> i \<and> nat i < length xs then Some (xs ! nat i) else None)"

subsection \<open>Small steps shared by the methods\<close>

definition call :: "('n, 'm, 's) effect \<Rightarrow> ('n, 'm, 's) editor \<Rightarrow> ('n, 'm, 's) editor" where
  "call ev \<sigma> = \<sigma>\<lparr>trace := trace \<sigma> @ [ev]\<rparr>"

definition newComponent :: "component \<Rightarrow> ('n, 'm, 's) editor \<Rightarrow> ('n, 'm, 's) editor" where
  "newComponent c \<sigma> =
     (call (Create c) \<sigma>)\<lparr>container := appendChild (ContainerOf c) (container \<sigma>)\<rparr>"

subsection \<open>The methods\<close>

text \<open>
  \<^verbatim>\<open>constructor(container)\<close>, run in a store \<open>h\<close> that holds no settings object of the
  editor yet. Lines 81 to 112 create the components and append their root elements, lines
  115 to 119 create the tooltips.
\<close>

definition "constructor" :: "HTMLElement \<Rightarrow> (addr \<Rightarrow> ('n, 'm, 's) IMenuSettings) \<Rightarrow> ('n, 'm, 's) editor" where
  "constructor c h =
     call InitTooltips
       (newComponent Toolbar
         (newComponent Sidebar
           (newComponent Properties
             (newComponent Preview
               (newComponent Background
                 \<lparr>container = c, menuSettings = None, heap = h, nextAddr = 0,
                  pending = [], trace = []\<rparr>)))))"

definition isInEditMode :: "('n, 'm, 's) editor \<Rightarrow> bool" where
  "isInEditMode \<sigma> = classList_contains ''edit-mode'' (container \<sigma>)"

definition "show" :: "('n, 'm, 's) editor \<Rightarrow> ('n, 'm, 's) editor" where
  "show \<sigma> = \<sigma>\<lparr>container := classList_add ''visible'' (container \<sigma>)\<rparr>"

definition enterEditMode :: "('n, 'm, 's) editor \<Rightarrow> ('n, 'm, 's) editor" where
  "enterEditMode \<sigma> =
     (if isInEditMode \<sigma> then \<sigma>
      else
        let \<sigma>1 = \<sigma>\<lparr>container := classList_add ''edit-mode'' (container \<sigma>)\<rparr>;
            \<sigma>2 = call (SidebarSetVisibility False) \<sigma>1;
            \<sigma>3 = call ApiMenuSettingsGet \<sigma>2;
            \<sigma>4 = call ApiMenuSettingsGetCurrentMenu \<sigma>3;
            \<sigma>5 = \<sigma>4\<lparr>pending := pending \<sigma>4 @ [[MenuSettingsGet, MenuSettingsGetCurrentMenu]]\<rparr>
        in call (Emit ''enter-edit-mode'') \<sigma>5)"

text \<open>The loop of lines 185 to 187 over the menus of one settings object.\<close>

definition convertNodes :: "('n \<Rightarrow> 'n) \<Rightarrow> ('n, 'm, 's) IMenuSettings \<Rightarrow> ('n, 'm, 's) IMenuSettings" where
  "convertNodes toINode s = s\<lparr>menus := map (\<lambda>menu. menu\<lparr>nodes := toINode (nodes menu)\<rparr>) (menus s)\<rparr>"

text \<open>\<^verbatim>\<open>toINode\<close> is imported from \<^verbatim>\<open>./editor-node\<close> and is a parameter.\<close>

definition leaveEditMode :: "('n \<Rightarrow> 'n) \<Rightarrow> ('n, 'm, 's) editor \<Rightarrow> ('n, 'm, 's) editor" where
  "leaveEditMode toINode \<sigma> =
     (if \<not> isInEditMode \<sigma> then \<sigma>
      else
        let \<sigma>1 = \<sigma>\<lparr>container := classList_remove ''edit-mode'' (container \<sigma>)\<rparr>;
            \<sigma>2 = (case menuSettings \<sigma>1 of
                    None \<Rightarrow> \<sigma>1
                  | Some a \<Rightarrow>
                      let \<sigma>a = \<sigma>1\<lparr>heap := (heap \<sigma>1)(a := convertNodes toINode (heap \<sigma>1 a))\<rparr>;
                          \<sigma>b = call (ApiMenuSettingsSet
                                  (map_option (\<lambda>r. (r, heap \<sigma>a r)) (menuSettings \<sigma>a))) \<sigma>a
                      in \<sigma>b\<lparr>menuSettings := None\<rparr>)
        in call (Emit ''leave-edit-mode'') \<sigma>2)"

definition hide :: "('n \<Rightarrow> 'n) \<Rightarrow> ('n, 'm, 's) editor \<Rightarrow> ('n, 'm, 's) editor" where
  "hide toINode \<sigma> =
     leaveEditMode toINode (\<sigma>\<lparr>container := classList_remove ''visible'' (container \<sigma>)\<rparr>)"

subsection \<open>The handlers registered in the constructor\<close>

text \<open>
  Lines 99 to 111. The handler of \<^verbatim>\<open>select-menu\<close> reads \<^verbatim>\<open>this.menuSettings.menus\<close>, which
  throws when the field is \<^verbatim>\<open>null\<close>.
\<close>

definition onToolbarEvent ::
  "('n \<Rightarrow> 'n) \<Rightarrow> toolbar_event \<Rightarrow> ('n, 'm, 's) editor \<Rightarrow> error + ('n, 'm, 's) editor" where
  "onToolbarEvent toINode ev \<sigma> =
     (case ev of
        TbEnterEditMode \<Rightarrow> Inr (enterEditMode \<sigma>)
      | TbLeaveEditMode \<Rightarrow> Inr (leaveEditMode toINode \<sigma>)
      | TbExpand \<Rightarrow> Inr (call PropertiesHide (call PreviewHide \<sigma>))
      | TbCollapse \<Rightarrow> Inr (call PropertiesShow (call PreviewShow \<sigma>))
      | TbSelectMenu index \<Rightarrow>
          (case menuSettings \<sigma> of
             None \<Rightarrow> Inl TypeError
           | Some a \<Rightarrow> Inr (call (PreviewSetMenu (array_get (menus (heap \<sigma> a)) index)) \<sigma>)))"

text \<open>
  The callback of line 158, run with the reference \<open>a\<close> to the settings object and the
  index that the two host calls returned.
\<close>

definition onSettings :: "addr \<Rightarrow> int \<Rightarrow> ('n, 'm, 's) editor \<Rightarrow> ('n, 'm, 's) editor" where
  "onSettings a currentMenu \<sigma> =
     (let \<sigma>1 = \<sigma>\<lparr>menuSettings := Some a\<rparr>;
          \<sigma>2 = call (PreviewSetMenu (array_get (menus (heap \<sigma>1 a)) currentMenu)) \<sigma>1
      in call (ToolbarSetMenus (menus (heap \<sigma>2 a)) currentMenu) \<sigma>2)"

subsection \<open>Steps of the environment\<close>

text \<open>
  The oldest pending join is fulfilled: the host's answer \<open>settings\<close> arrives as a new
  object, and the callback runs. All pending joins wait for the same two calls and have the
  same callback, so taking the oldest loses nothing. Without a pending join there is no
  callback to run.
\<close>

definition resolveFetch ::
  "('n, 'm, 's) IMenuSettings \<Rightarrow> int \<Rightarrow> ('n, 'm, 's) editor \<Rightarrow> ('n, 'm, 's) editor" where
  "resolveFetch settings currentMenu \<sigma> =
     (case pending \<sigma> of
        [] \<Rightarrow> \<sigma>
      | p # ps \<Rightarrow>
          let a = nextAddr \<sigma>
          in onSettings a currentMenu
               (\<sigma>\<lparr>pending := ps, heap := (heap \<sigma>)(a := settings), nextAddr := a + 1\<rparr>))"

text \<open>A host call fails: the join is rejected and its callback never runs.\<close>

definition rejectFetch :: "('n, 'm, 's) editor \<Rightarrow> ('n, 'm, 's) editor" where
  "rejectFetch \<sigma> = \<sigma>\<lparr>pending := tl (pending \<sigma>)\<rparr>"

text \<open>A component edits a settings object it was handed, through its reference.\<close>

definition componentEdits ::
  "addr \<Rightarrow> (('n, 'm, 's) IMenuSettings \<Rightarrow> ('n, 'm, 's) IMenuSettings) \<Rightarrow>
   ('n, 'm, 's) editor \<Rightarrow> ('n, 'm, 's) editor" where
  "componentEdits a f \<sigma> = \<sigma>\<lparr>heap := (heap \<sigma>)(a := f (heap \<sigma> a))\<rparr>"

text \<open>The states an editor can be in.\<close>

inductive reachable :: "('n \<Rightarrow> 'n) \<Rightarrow> ('n, 'm, 's) editor \<Rightarrow> bool" for toINode where
  created: "reachable toINode (constructor c h)"
| shown: "reachable toINode \<sigma> \<Longrightarrow> reachable toINode (show \<sigma>)"
| hidden: "reachable toINode \<sigma> \<Longrightarrow> reachable toINode (hide toINode \<sigma>)"
| entered: "reachable toINode \<sigma> \<Longrightarrow> reachable toINode (enterEditMode \<sigma>)"
| left: "reachable toINode \<sigma> \<Longrightarrow> reachable toINode (leaveEditMode toINode \<sigma>)"
| toolbar: "reachable toINode \<sigma> \<Longrightarrow> onToolbarEvent toINode ev \<sigma> = Inr \<sigma>' \<Longrightarrow>
            reachable toINode \<sigma>'"
| resolved: "reachable toINode \<sigma> \<Longrightarrow> pending \<sigma> \<noteq> [] \<Longrightarrow>
             reachable toINode (resolveFetch settings currentMenu \<sigma>)"
| rejected: "reachable toINode \<sigma> \<Longrightarrow> pending \<sigma> \<noteq> [] \<Longrightarrow> reachable toINode (rejectFetch \<sigma>)"
| edited: "reachable toINode \<sigma> \<Longrightarrow> a < nextAddr \<sigma> \<Longrightarrow>
           reachable toINode (componentEdits a f \<sigma>)"

text \<open>The arguments of the calls of \<^verbatim>\<open>window.api.menuSettings.set\<close> in a trace, in order.\<close>

fun setCalls :: "('n, 'm, 's) effect list \<Rightarrow> (addr \<times> ('n, 'm, 's) IMenuSettings) option list" where
  "setCalls [] = []"
| "setCalls (ApiMenuSettingsSet x # es) = x # setCalls es"
| "setCalls (e # es) = setCalls es"

subsection \<open>Sample inputs\<close>

text \<open>
  Concrete values at which the theorems below are instantiated: nodes are numbers, the
  conversion halves them, the other fields of menus and settings are empty.
\<close>

definition sampleToINode :: "nat \<Rightarrow> nat" where
  "sampleToINode n = n div 2"

definition sampleSettings :: "(nat, unit, unit) IMenuSettings" where
  "sampleSettings =
     \<lparr>menus = [\<lparr>nodes = 6, menuFields = ()\<rparr>, \<lparr>nodes = 9, menuFields = ()\<rparr>],
      settingsFields = ()\<rparr>"

definition emptyStore :: "addr \<Rightarrow> (nat, unit, unit) IMenuSettings" where
  "emptyStore a = \<lparr>menus = [], settingsFields = ()\<rparr>"

definition sampleContainer :: HTMLElement where
  "sampleContainer = \<lparr>classList = [''kando-editor''], childNodes = [OtherNode 0]\<rparr>"

definition freshEditor :: "(nat, unit, unit) editor" where
  "freshEditor = constructor sampleContainer emptyStore"

text \<open>An editor in edit mode whose settings have arrived.\<close>

definition editingEditor :: "(nat, unit, unit) editor" where
  "editingEditor = resolveFetch sampleSettings 1 (enterEditMode freshEditor)"

text \<open>An editor that was left before the host answered, after the answer arrived.\<close>

definition lateEditor :: "(nat, unit, unit) editor" where
  "lateEditor =
     resolveFetch sampleSettings 0 (leaveEditMode sampleToINode (enterEditMode freshEditor))"

section \<open>Properties\<close>

subsection \<open>Auxiliary facts\<close>

lemmas step_defs = call_def newComponent_def appendChild_def classList_add_def
  classList_remove_def classList_contains_def isInEditMode_def

lemmas method_defs = show_def hide_def enterEditMode_def leaveEditMode_def onToolbarEvent_def
  onSettings_def resolveFetch_def rejectFetch_def componentEdits_def

lemmas sample_defs = sampleToINode_def sampleSettings_def sampleContainer_def freshEditor_def
  editingEditor_def lateEditor_def constructor_def convertNodes_def array_get_def

lemma setCalls_append: "setCalls (xs @ ys) = setCalls xs @ setCalls ys"
  by (induction xs rule: setCalls.induct) simp_all

lemma trace_enterEditMode:
  "trace (enterEditMode \<sigma>) =
     (if isInEditMode \<sigma> then trace \<sigma>
      else trace \<sigma> @ [SidebarSetVisibility False, ApiMenuSettingsGet,
                       ApiMenuSettingsGetCurrentMenu, Emit ''enter-edit-mode''])"
  by (simp add: enterEditMode_def step_defs Let_def)

lemma trace_leaveEditMode:
  "trace (leaveEditMode f \<sigma>) =
     (if \<not> isInEditMode \<sigma> then trace \<sigma>
      else case menuSettings \<sigma> of
             None \<Rightarrow> trace \<sigma> @ [Emit ''leave-edit-mode'']
           | Some a \<Rightarrow> trace \<sigma> @ [ApiMenuSettingsSet (Some (a, convertNodes f (heap \<sigma> a))),
                                  Emit ''leave-edit-mode''])"
  by (simp add: leaveEditMode_def step_defs Let_def split: option.splits)

lemma menuSettings_leaveEditMode:
  "menuSettings (leaveEditMode f \<sigma>) = (if isInEditMode \<sigma> then None else menuSettings \<sigma>)"
  by (simp add: leaveEditMode_def step_defs Let_def split: option.splits)

lemma isInEditMode_enterEditMode: "isInEditMode (enterEditMode \<sigma>)"
  by (simp add: enterEditMode_def step_defs Let_def)

lemma isInEditMode_leaveEditMode: "\<not> isInEditMode (leaveEditMode f \<sigma>)"
  by (simp add: leaveEditMode_def step_defs Let_def split: option.splits)

lemma isInEditMode_remove_visible:
  "isInEditMode (\<sigma>\<lparr>container := classList_remove ''visible'' (container \<sigma>)\<rparr>) = isInEditMode \<sigma>"
  by (simp add: step_defs)

text \<open>The field \<^verbatim>\<open>menuSettings\<close> only ever refers to an object that arrived from the host.\<close>

lemma menuSettings_allocated:
  assumes "reachable f \<sigma>" and "menuSettings \<sigma> = Some a"
  shows "a < nextAddr \<sigma>"
  using assms
proof (induction arbitrary: a rule: reachable.induct)
  case (created c h)
  then show ?case by (simp add: constructor_def step_defs)
next
  case (toolbar \<sigma> ev \<sigma>')
  then show ?case
    by (cases ev)
       (auto simp: onToolbarEvent_def enterEditMode_def leaveEditMode_def step_defs Let_def
             split: option.splits if_splits)
next
  case (resolved \<sigma> settings currentMenu)
  then show ?case
    by (auto simp: resolveFetch_def onSettings_def step_defs Let_def split: list.splits)
qed (auto simp: show_def hide_def enterEditMode_def leaveEditMode_def rejectFetch_def
       componentEdits_def step_defs Let_def split: option.splits if_splits)

lemma reachable_freshEditor: "reachable sampleToINode freshEditor"
  unfolding freshEditor_def by (rule reachable.created)

lemma reachable_editingEditor: "reachable sampleToINode editingEditor"
  unfolding editingEditor_def
  by (rule reachable.resolved [OF reachable.entered [OF reachable_freshEditor]])
     (simp add: sample_defs enterEditMode_def step_defs Let_def)

lemma isInEditMode_freshEditor: "\<not> isInEditMode freshEditor"
  by (simp add: sample_defs step_defs)

lemma isInEditMode_editingEditor: "isInEditMode editingEditor"
  by (simp add: sample_defs method_defs step_defs Let_def)

lemma menuSettings_editingEditor: "menuSettings editingEditor = Some 0"
  by (simp add: sample_defs method_defs step_defs Let_def)

text \<open>Leaving edit mode registers no join, and every join waits for the same two host
  calls.\<close>

lemma pending_leaveEditMode: "pending (leaveEditMode f \<sigma>) = pending \<sigma>"
  by (simp add: leaveEditMode_def step_defs Let_def split: option.splits)

lemma pending_joins:
  assumes "reachable f \<sigma>"
  shows "set (pending \<sigma>) \<subseteq> {[MenuSettingsGet, MenuSettingsGetCurrentMenu]}"
  using assms
proof (induction rule: reachable.induct)
  case (created c h)
  then show ?case by (simp add: constructor_def step_defs)
next
  case (toolbar \<sigma> ev \<sigma>')
  then show ?case
    by (cases ev)
       (auto simp: onToolbarEvent_def enterEditMode_def leaveEditMode_def step_defs Let_def
             split: option.splits if_splits)
next
  case (resolved \<sigma> settings currentMenu)
  then show ?case
    by (auto simp: resolveFetch_def onSettings_def step_defs Let_def split: list.splits)
next
  case (rejected \<sigma>)
  then show ?case
    by (cases "pending \<sigma>") (auto simp: rejectFetch_def)
qed (auto simp: show_def hide_def enterEditMode_def leaveEditMode_def
       componentEdits_def step_defs Let_def split: option.splits if_splits)

text \<open>No call of \<^verbatim>\<open>window.api.menuSettings.set\<close> in a reachable state has the argument
  \<^verbatim>\<open>null\<close>.\<close>

lemma setCalls_not_null:
  assumes "reachable f \<sigma>"
  shows "None \<notin> set (setCalls (trace \<sigma>))"
  using assms
proof (induction rule: reachable.induct)
  case (created c h)
  then show ?case by (simp add: constructor_def step_defs)
next
  case (toolbar \<sigma> ev \<sigma>')
  then show ?case
    by (cases ev)
       (auto simp: onToolbarEvent_def trace_enterEditMode trace_leaveEditMode call_def
             setCalls_append split: option.splits if_splits)
next
  case (resolved \<sigma> settings currentMenu)
  then show ?case
    by (auto simp: resolveFetch_def onSettings_def step_defs Let_def setCalls_append
             split: list.splits)
next
  case (hidden \<sigma>)
  then show ?case
    by (auto simp: hide_def trace_leaveEditMode setCalls_append split: option.splits if_splits)
qed (auto simp: show_def trace_enterEditMode trace_leaveEditMode rejectFetch_def
       componentEdits_def setCalls_append split: option.splits if_splits)

subsection \<open>Entering edit mode\<close>

text \<open>
  Claim C1. A call of \<^verbatim>\<open>enterEditMode()\<close> outside edit mode hides the sidebar, calls
  \<^verbatim>\<open>window.api.menuSettings.get\<close> and \<^verbatim>\<open>getCurrentMenu\<close>, registers one join on the two
  calls and emits \<^verbatim>\<open>enter-edit-mode\<close>. When the host answers with \<open>settings\<close> and
  \<open>currentMenu\<close>, the callback stores the object that arrived in \<^verbatim>\<open>menuSettings\<close>, hands
  \<^verbatim>\<open>settings.menus[currentMenu]\<close> to the preview and \<^verbatim>\<open>settings.menus\<close> with \<open>currentMenu\<close>
  to the toolbar.
\<close>

theorem enterEditMode_fetches_settings:
  assumes "\<not> isInEditMode \<sigma>"
  shows "trace (enterEditMode \<sigma>) =
           trace \<sigma> @ [SidebarSetVisibility False, ApiMenuSettingsGet,
                       ApiMenuSettingsGetCurrentMenu, Emit ''enter-edit-mode'']
       \<and> pending (enterEditMode \<sigma>) = pending \<sigma> @ [[MenuSettingsGet, MenuSettingsGetCurrentMenu]]
       \<and> menuSettings (resolveFetch settings currentMenu (enterEditMode \<sigma>)) = Some (nextAddr \<sigma>)
       \<and> heap (resolveFetch settings currentMenu (enterEditMode \<sigma>)) (nextAddr \<sigma>) = settings
       \<and> trace (resolveFetch settings currentMenu (enterEditMode \<sigma>)) =
           trace (enterEditMode \<sigma>) @
             [PreviewSetMenu (array_get (menus settings) currentMenu),
              ToolbarSetMenus (menus settings) currentMenu]"
  using assms
  by (simp add: enterEditMode_def resolveFetch_def onSettings_def step_defs Let_def
           split: list.splits)

theorem enterEditMode_fetches_settings_witness:
  "\<not> isInEditMode freshEditor
   \<and> menuSettings editingEditor = Some 0
   \<and> heap editingEditor 0 = sampleSettings
   \<and> trace editingEditor =
       trace freshEditor @
         [SidebarSetVisibility False, ApiMenuSettingsGet, ApiMenuSettingsGetCurrentMenu,
          Emit ''enter-edit-mode'',
          PreviewSetMenu (Some \<lparr>nodes = 9, menuFields = ()\<rparr>),
          ToolbarSetMenus
            [\<lparr>nodes = 6, menuFields = ()\<rparr>, \<lparr>nodes = 9, menuFields = ()\<rparr>] 1]"
proof -
  have n: "nextAddr freshEditor = 0"
    by (simp add: sample_defs step_defs)
  from enterEditMode_fetches_settings [OF isInEditMode_freshEditor, of sampleSettings 1]
  show ?thesis
    using isInEditMode_freshEditor n
    by (simp add: editingEditor_def sampleSettings_def array_get_def)
qed

subsection \<open>Leaving edit mode\<close>

text \<open>
  Claim C2. A call of \<^verbatim>\<open>leaveEditMode()\<close> in edit mode with \<^verbatim>\<open>menuSettings\<close> referring to the
  object \<open>a\<close> converts the nodes of every menu of that object in place with \<^verbatim>\<open>toINode\<close>,
  passes the object to \<^verbatim>\<open>window.api.menuSettings.set\<close> in one call, emits
  \<^verbatim>\<open>leave-edit-mode\<close> and does nothing else to the outside; the field is \<^verbatim>\<open>null\<close>
  afterwards. The object is one that arrived from the host; directly after the callback of
  an \<^verbatim>\<open>enterEditMode()\<close> it is the object that this callback received.
\<close>

theorem leaveEditMode_sends_settings:
  assumes "isInEditMode \<sigma>" and "menuSettings \<sigma> = Some a"
  shows "trace (leaveEditMode toINode \<sigma>) =
           trace \<sigma> @ [ApiMenuSettingsSet (Some (a, convertNodes toINode (heap \<sigma> a))),
                       Emit ''leave-edit-mode'']
       \<and> heap (leaveEditMode toINode \<sigma>) = (heap \<sigma>)(a := convertNodes toINode (heap \<sigma> a))
       \<and> menuSettings (leaveEditMode toINode \<sigma>) = None
       \<and> (reachable toINode \<sigma> \<longrightarrow> a < nextAddr \<sigma>)
       \<and> (\<forall>\<sigma>0 s i. \<sigma> = resolveFetch s i (enterEditMode \<sigma>0) \<and> \<not> isInEditMode \<sigma>0 \<longrightarrow>
             a = nextAddr \<sigma>0 \<and> heap \<sigma> a = s)"
  using assms menuSettings_allocated [of toINode \<sigma> a]
  by (auto simp add: leaveEditMode_def enterEditMode_def resolveFetch_def onSettings_def
        step_defs Let_def split: list.splits)

theorem leaveEditMode_sends_settings_witness:
  "isInEditMode editingEditor \<and> menuSettings editingEditor = Some 0
   \<and> reachable sampleToINode editingEditor
   \<and> trace (leaveEditMode sampleToINode editingEditor) =
       trace editingEditor @
         [ApiMenuSettingsSet
            (Some (0, \<lparr>menus = [\<lparr>nodes = 3, menuFields = ()\<rparr>, \<lparr>nodes = 4, menuFields = ()\<rparr>],
                       settingsFields = ()\<rparr>)),
          Emit ''leave-edit-mode'']
   \<and> menuSettings (leaveEditMode sampleToINode editingEditor) = None"
proof -
  have h: "heap editingEditor 0 = sampleSettings"
    by (simp add: sample_defs method_defs step_defs Let_def)
  from leaveEditMode_sends_settings
         [OF isInEditMode_editingEditor menuSettings_editingEditor, of sampleToINode]
  show ?thesis
    using isInEditMode_editingEditor menuSettings_editingEditor reachable_editingEditor h
    by (simp add: sampleSettings_def sampleToINode_def convertNodes_def)
qed

subsection \<open>The edit-mode flag\<close>

text \<open>
  Claim C3. \<^verbatim>\<open>isInEditMode()\<close> is true exactly when the class list of the container holds
  \<^verbatim>\<open>edit-mode\<close>. \<^verbatim>\<open>enterEditMode()\<close> makes it true and \<^verbatim>\<open>leaveEditMode()\<close> makes it false.
  The flag alone decides whether either of the two does anything, and no other operation
  sets it: \<^verbatim>\<open>show()\<close>, the callback of the fetch, a rejected fetch, an edit by a component
  and the toolbar's other events keep it, and \<^verbatim>\<open>hide()\<close> clears it. Of the classes of the
  container, the methods touch \<^verbatim>\<open>edit-mode\<close> and \<^verbatim>\<open>visible\<close> only.
\<close>

theorem edit_mode_flag:
  "isInEditMode \<sigma> = (''edit-mode'' \<in> set (classList (container \<sigma>)))
   \<and> isInEditMode (enterEditMode \<sigma>)
   \<and> \<not> isInEditMode (leaveEditMode f \<sigma>)
   \<and> (enterEditMode \<sigma> = \<sigma>) = isInEditMode \<sigma>
   \<and> (leaveEditMode f \<sigma> = \<sigma>) = (\<not> isInEditMode \<sigma>)
   \<and> isInEditMode (show \<sigma>) = isInEditMode \<sigma>
   \<and> \<not> isInEditMode (hide f \<sigma>)
   \<and> isInEditMode (resolveFetch s i \<sigma>) = isInEditMode \<sigma>
   \<and> isInEditMode (rejectFetch \<sigma>) = isInEditMode \<sigma>
   \<and> isInEditMode (componentEdits a g \<sigma>) = isInEditMode \<sigma>
   \<and> (\<forall>ev \<sigma>'. ev \<noteq> TbEnterEditMode \<and> ev \<noteq> TbLeaveEditMode \<and>
          onToolbarEvent f ev \<sigma> = Inr \<sigma>' \<longrightarrow> isInEditMode \<sigma>' = isInEditMode \<sigma>)
   \<and> (\<forall>t. t \<noteq> ''edit-mode'' \<and> t \<noteq> ''visible'' \<longrightarrow>
          (t \<in> set (classList (container (enterEditMode \<sigma>)))) = (t \<in> set (classList (container \<sigma>)))
        \<and> (t \<in> set (classList (container (leaveEditMode f \<sigma>)))) = (t \<in> set (classList (container \<sigma>)))
        \<and> (t \<in> set (classList (container (show \<sigma>)))) = (t \<in> set (classList (container \<sigma>)))
        \<and> (t \<in> set (classList (container (hide f \<sigma>)))) = (t \<in> set (classList (container \<sigma>))))"
proof -
  have c: "t \<noteq> ''edit-mode'' \<Longrightarrow> t \<noteq> ''visible'' \<Longrightarrow>
          (t \<in> set (classList (container (enterEditMode \<sigma>)))) = (t \<in> set (classList (container \<sigma>)))
        \<and> (t \<in> set (classList (container (leaveEditMode f \<sigma>)))) = (t \<in> set (classList (container \<sigma>)))
        \<and> (t \<in> set (classList (container (show \<sigma>)))) = (t \<in> set (classList (container \<sigma>)))
        \<and> (t \<in> set (classList (container (hide f \<sigma>)))) = (t \<in> set (classList (container \<sigma>)))"
    for t
    by (simp add: enterEditMode_def leaveEditMode_def show_def hide_def step_defs Let_def
          split: option.splits)
  have e: "(enterEditMode \<sigma> = \<sigma>) = isInEditMode \<sigma>"
    using isInEditMode_enterEditMode [of \<sigma>] by (auto simp: enterEditMode_def)
  have l: "(leaveEditMode f \<sigma> = \<sigma>) = (\<not> isInEditMode \<sigma>)"
    using isInEditMode_leaveEditMode [of f \<sigma>] by (auto simp: leaveEditMode_def)
  have h: "\<not> isInEditMode (hide f \<sigma>)"
    by (simp add: hide_def isInEditMode_leaveEditMode)
  have o: "isInEditMode (show \<sigma>) = isInEditMode \<sigma>"
       "isInEditMode (resolveFetch s i \<sigma>) = isInEditMode \<sigma>"
       "isInEditMode (rejectFetch \<sigma>) = isInEditMode \<sigma>"
       "isInEditMode (componentEdits a g \<sigma>) = isInEditMode \<sigma>"
    by (simp_all add: show_def resolveFetch_def onSettings_def rejectFetch_def
          componentEdits_def step_defs Let_def split: list.splits)
  have t: "onToolbarEvent f ev \<sigma> = Inr \<sigma>' \<Longrightarrow> ev \<noteq> TbEnterEditMode \<Longrightarrow> ev \<noteq> TbLeaveEditMode
           \<Longrightarrow> isInEditMode \<sigma>' = isInEditMode \<sigma>" for ev \<sigma>'
    by (cases ev) (auto simp: onToolbarEvent_def step_defs split: option.splits)
  show ?thesis
    using e l h o t c isInEditMode_enterEditMode [of \<sigma>] isInEditMode_leaveEditMode [of f \<sigma>]
    unfolding isInEditMode_def classList_contains_def by blast
qed

theorem edit_mode_flag_witness:
  "\<not> isInEditMode freshEditor \<and> isInEditMode (enterEditMode freshEditor)
   \<and> enterEditMode freshEditor \<noteq> freshEditor
   \<and> leaveEditMode sampleToINode freshEditor = freshEditor
   \<and> onToolbarEvent sampleToINode TbExpand freshEditor
        = Inr (call PropertiesHide (call PreviewHide freshEditor))
   \<and> \<not> isInEditMode (call PropertiesHide (call PreviewHide freshEditor))"
proof -
  have x: "onToolbarEvent sampleToINode TbExpand freshEditor
        = Inr (call PropertiesHide (call PreviewHide freshEditor))"
    by (simp add: onToolbarEvent_def)
  from edit_mode_flag [of freshEditor sampleToINode sampleSettings 0 0 id]
  show ?thesis
    using isInEditMode_freshEditor x by auto
qed

subsection \<open>Construction\<close>

text \<open>
  Claim C4, amended. The constructor creates five components (background, preview,
  properties, sidebar, toolbar), in this order, and appends the root element of each to the
  container, behind the children the container already had.
\<close>

theorem constructor_appends_five:
  "childNodes (container (constructor c h)) =
     childNodes c @ [ContainerOf Background, ContainerOf Preview, ContainerOf Properties,
                     ContainerOf Sidebar, ContainerOf Toolbar]
   \<and> trace (constructor c h) =
     [Create Background, Create Preview, Create Properties, Create Sidebar, Create Toolbar,
      InitTooltips]"
  by (simp add: constructor_def step_defs)

theorem constructor_four_children_counterexample:
  "length (childNodes (container freshEditor)) - length (childNodes sampleContainer) \<noteq> 4"
  by (simp add: sample_defs step_defs)

subsection \<open>Visibility\<close>

text \<open>
  Claim C5. \<^verbatim>\<open>show()\<close> puts the class \<^verbatim>\<open>visible\<close> on the container and \<^verbatim>\<open>hide()\<close> takes it
  off. Both are idempotent. \<^verbatim>\<open>hide()\<close> after \<^verbatim>\<open>show()\<close> gives the state \<^verbatim>\<open>hide()\<close> alone
  gives, which is the state before \<^verbatim>\<open>show()\<close> when the editor was hidden and not in edit
  mode.
\<close>

theorem show_hide_visibility:
  "''visible'' \<in> set (classList (container (show \<sigma>)))
   \<and> ''visible'' \<notin> set (classList (container (hide f \<sigma>)))
   \<and> show (show \<sigma>) = show \<sigma>
   \<and> hide f (hide f \<sigma>) = hide f \<sigma>
   \<and> hide f (show \<sigma>) = hide f \<sigma>
   \<and> (''visible'' \<notin> set (classList (container \<sigma>)) \<and> \<not> isInEditMode \<sigma> \<longrightarrow>
        hide f (show \<sigma>) = \<sigma>)"
  by (simp add: show_def hide_def leaveEditMode_def step_defs Let_def split: option.splits)

theorem show_hide_visibility_witness:
  "''visible'' \<notin> set (classList (container freshEditor)) \<and> \<not> isInEditMode freshEditor
   \<and> classList (container (show freshEditor)) = [''kando-editor'', ''visible'']
   \<and> hide sampleToINode (show freshEditor) = freshEditor"
proof -
  have v: "''visible'' \<notin> set (classList (container freshEditor))"
    by (simp add: sample_defs step_defs)
  have c: "classList (container (show freshEditor)) = [''kando-editor'', ''visible'']"
    by (simp add: sample_defs show_def step_defs)
  from show_hide_visibility [of freshEditor sampleToINode]
  show ?thesis
    using v c isInEditMode_freshEditor by blast
qed

subsection \<open>Joins on promises\<close>

text \<open>
  Claim C6. The only operation that registers a join on promises is \<^verbatim>\<open>enterEditMode()\<close>
  outside edit mode, and the join waits for exactly the calls \<^verbatim>\<open>get\<close> and
  \<^verbatim>\<open>getCurrentMenu\<close>. The constructor, \<^verbatim>\<open>leaveEditMode()\<close>, \<^verbatim>\<open>show()\<close>, \<^verbatim>\<open>hide()\<close>, the callback
  of the join and the handlers of the toolbar's other events register none.
\<close>

theorem promise_coordination:
  "pending (constructor c h) = []
   \<and> pending (enterEditMode \<sigma>) =
       (if isInEditMode \<sigma> then pending \<sigma>
        else pending \<sigma> @ [[MenuSettingsGet, MenuSettingsGetCurrentMenu]])
   \<and> pending (leaveEditMode f \<sigma>) = pending \<sigma>
   \<and> pending (show \<sigma>) = pending \<sigma>
   \<and> pending (hide f \<sigma>) = pending \<sigma>
   \<and> pending (onSettings a i \<sigma>) = pending \<sigma>
   \<and> (\<forall>ev \<sigma>'. ev \<noteq> TbEnterEditMode \<and> onToolbarEvent f ev \<sigma> = Inr \<sigma>' \<longrightarrow>
          pending \<sigma>' = pending \<sigma>)
   \<and> (reachable f \<sigma> \<longrightarrow> (\<forall>p \<in> set (pending \<sigma>). p = [MenuSettingsGet, MenuSettingsGetCurrentMenu]))"
proof -
  note l = pending_leaveEditMode
  have t: "onToolbarEvent f ev \<sigma> = Inr \<sigma>' \<Longrightarrow> ev \<noteq> TbEnterEditMode \<Longrightarrow> pending \<sigma>' = pending \<sigma>"
    for ev \<sigma>'
    by (cases ev) (auto simp: onToolbarEvent_def l step_defs split: option.splits)
  have r: "reachable f \<sigma> \<Longrightarrow> p \<in> set (pending \<sigma>) \<Longrightarrow> p = [MenuSettingsGet, MenuSettingsGetCurrentMenu]"
    for p
    using pending_joins [of f \<sigma>] by auto
  have o: "pending (constructor c h) = []"
    "pending (enterEditMode \<sigma>) =
       (if isInEditMode \<sigma> then pending \<sigma>
        else pending \<sigma> @ [[MenuSettingsGet, MenuSettingsGetCurrentMenu]])"
    "pending (show \<sigma>) = pending \<sigma>"
    "pending (hide f \<sigma>) = pending \<sigma>"
    "pending (onSettings a i \<sigma>) = pending \<sigma>"
    by (simp_all add: constructor_def enterEditMode_def show_def hide_def l onSettings_def
          step_defs Let_def)
  show ?thesis
    using l [of f \<sigma>] t r o by blast
qed

theorem promise_coordination_witness:
  "reachable sampleToINode (enterEditMode freshEditor)
   \<and> pending freshEditor = []
   \<and> pending (enterEditMode freshEditor) = [[MenuSettingsGet, MenuSettingsGetCurrentMenu]]
   \<and> pending (enterEditMode (enterEditMode freshEditor)) = [[MenuSettingsGet, MenuSettingsGetCurrentMenu]]
   \<and> pending (leaveEditMode sampleToINode (enterEditMode freshEditor))
       = [[MenuSettingsGet, MenuSettingsGetCurrentMenu]]"
proof -
  have r: "reachable sampleToINode (enterEditMode freshEditor)"
    by (rule reachable.entered [OF reachable_freshEditor])
  have p: "pending freshEditor = []"
    by (simp add: sample_defs step_defs)
  from promise_coordination [of sampleContainer emptyStore freshEditor sampleToINode 0 0]
       promise_coordination [of sampleContainer emptyStore "enterEditMode freshEditor" sampleToINode 0 0]
  show ?thesis
    using r p isInEditMode_freshEditor isInEditMode_enterEditMode [of freshEditor] by simp
qed

subsection \<open>Guards\<close>

text \<open>
  Claim C7. \<^verbatim>\<open>enterEditMode()\<close> in edit mode and \<^verbatim>\<open>leaveEditMode()\<close> outside edit mode leave
  the whole state as it is: classes, trace (so no call on the sidebar or the host and no
  event) and \<^verbatim>\<open>menuSettings\<close>. When the flag does change, \<^verbatim>\<open>enter-edit-mode\<close> or
  \<^verbatim>\<open>leave-edit-mode\<close> is emitted exactly once, and the other event is not emitted.
\<close>

theorem mode_guards:
  "(isInEditMode \<sigma> \<longrightarrow> enterEditMode \<sigma> = \<sigma>)
   \<and> (\<not> isInEditMode \<sigma> \<longrightarrow> leaveEditMode f \<sigma> = \<sigma>)
   \<and> (\<not> isInEditMode \<sigma> \<longrightarrow>
         isInEditMode (enterEditMode \<sigma>)
         \<and> count_list (trace (enterEditMode \<sigma>)) (Emit ''enter-edit-mode'') =
             count_list (trace \<sigma>) (Emit ''enter-edit-mode'') + 1
         \<and> count_list (trace (enterEditMode \<sigma>)) (Emit ''leave-edit-mode'') =
             count_list (trace \<sigma>) (Emit ''leave-edit-mode''))
   \<and> (isInEditMode \<sigma> \<longrightarrow>
         \<not> isInEditMode (leaveEditMode f \<sigma>)
         \<and> count_list (trace (leaveEditMode f \<sigma>)) (Emit ''leave-edit-mode'') =
             count_list (trace \<sigma>) (Emit ''leave-edit-mode'') + 1
         \<and> count_list (trace (leaveEditMode f \<sigma>)) (Emit ''enter-edit-mode'') =
             count_list (trace \<sigma>) (Emit ''enter-edit-mode''))"
  by (simp add: trace_enterEditMode trace_leaveEditMode isInEditMode_enterEditMode
        isInEditMode_leaveEditMode split: option.splits)
     (simp add: enterEditMode_def leaveEditMode_def)

theorem mode_guards_witness:
  "isInEditMode editingEditor \<and> enterEditMode editingEditor = editingEditor
   \<and> \<not> isInEditMode freshEditor \<and> leaveEditMode sampleToINode freshEditor = freshEditor
   \<and> count_list (trace (enterEditMode freshEditor)) (Emit ''enter-edit-mode'') = 1
   \<and> count_list (trace (leaveEditMode sampleToINode editingEditor)) (Emit ''leave-edit-mode'') = 1"
proof -
  have f: "count_list (trace freshEditor) (Emit ''enter-edit-mode'') = 0"
    by (simp add: sample_defs step_defs)
  have e: "count_list (trace editingEditor) (Emit ''leave-edit-mode'') = 0"
    by (simp add: sample_defs method_defs step_defs Let_def)
  from mode_guards [of freshEditor sampleToINode] mode_guards [of editingEditor sampleToINode]
  show ?thesis
    using isInEditMode_freshEditor isInEditMode_editingEditor f e by simp
qed

subsection \<open>Hiding\<close>

text \<open>
  Claim C8, amended. After \<^verbatim>\<open>hide()\<close> the editor is not in edit mode and the container has
  neither the class \<^verbatim>\<open>visible\<close> nor \<^verbatim>\<open>edit-mode\<close>. When the editor was in edit mode, the
  settings object \<^verbatim>\<open>menuSettings\<close> referred to, if any, has been sent to the host in one call
  and the field is \<^verbatim>\<open>null\<close>. When the editor was not in edit mode, \<^verbatim>\<open>hide()\<close> makes no call
  and leaves \<^verbatim>\<open>menuSettings\<close> as it was.
\<close>

theorem hide_leaves_edit_mode:
  "\<not> isInEditMode (hide f \<sigma>)
   \<and> ''visible'' \<notin> set (classList (container (hide f \<sigma>)))
   \<and> ''edit-mode'' \<notin> set (classList (container (hide f \<sigma>)))
   \<and> (isInEditMode \<sigma> \<longrightarrow>
         menuSettings (hide f \<sigma>) = None
         \<and> setCalls (trace (hide f \<sigma>)) =
             setCalls (trace \<sigma>) @
               (case menuSettings \<sigma> of
                  None \<Rightarrow> []
                | Some a \<Rightarrow> [Some (a, convertNodes f (heap \<sigma> a))]))
   \<and> (\<not> isInEditMode \<sigma> \<longrightarrow>
         menuSettings (hide f \<sigma>) = menuSettings \<sigma> \<and> trace (hide f \<sigma>) = trace \<sigma>)"
  by (simp add: hide_def leaveEditMode_def step_defs Let_def setCalls_append
           split: option.splits)

theorem hide_leaves_edit_mode_witness:
  "isInEditMode editingEditor \<and> \<not> isInEditMode lateEditor
   \<and> \<not> isInEditMode (hide sampleToINode editingEditor)
   \<and> menuSettings (hide sampleToINode editingEditor) = None
   \<and> setCalls (trace (hide sampleToINode editingEditor)) =
       [Some (0, \<lparr>menus = [\<lparr>nodes = 3, menuFields = ()\<rparr>, \<lparr>nodes = 4, menuFields = ()\<rparr>],
                  settingsFields = ()\<rparr>)]
   \<and> trace (hide sampleToINode lateEditor) = trace lateEditor"
proof -
  have l: "\<not> isInEditMode lateEditor"
    by (simp add: sample_defs method_defs step_defs Let_def)
  have s: "setCalls (trace editingEditor) = []" "heap editingEditor 0 = sampleSettings"
    by (simp_all add: sample_defs method_defs step_defs Let_def)
  from hide_leaves_edit_mode [of sampleToINode editingEditor]
       hide_leaves_edit_mode [of sampleToINode lateEditor]
  show ?thesis
    using l s isInEditMode_editingEditor menuSettings_editingEditor
    by (simp add: sampleSettings_def sampleToINode_def convertNodes_def)
qed

theorem hide_unsent_settings_counterexample:
  "reachable sampleToINode lateEditor
   \<and> menuSettings lateEditor = Some 0
   \<and> heap lateEditor 0 = sampleSettings
   \<and> menuSettings (hide sampleToINode lateEditor) = Some 0
   \<and> setCalls (trace (hide sampleToINode lateEditor)) = []"
proof -
  have r: "reachable sampleToINode lateEditor"
    unfolding lateEditor_def
    by (rule reachable.resolved
          [OF reachable.left [OF reachable.entered [OF reachable_freshEditor]]])
       (simp add: sample_defs method_defs step_defs Let_def)
  show ?thesis
    using r by (simp add: sample_defs method_defs step_defs Let_def)
qed

subsection \<open>Calls of set\<close>

text \<open>
  Claim C9. \<^verbatim>\<open>leaveEditMode()\<close> calls \<^verbatim>\<open>window.api.menuSettings.set\<close> only in edit mode and
  only when \<^verbatim>\<open>menuSettings\<close> is not \<^verbatim>\<open>null\<close>, at most once, and the field is \<^verbatim>\<open>null\<close> when it
  returns from edit mode. A further \<^verbatim>\<open>leaveEditMode()\<close> or \<^verbatim>\<open>hide()\<close> does nothing to the
  outside. In no reachable state has \<^verbatim>\<open>set\<close> been called with \<^verbatim>\<open>null\<close>.
\<close>

theorem set_called_once_never_null:
  "setCalls (trace (leaveEditMode f \<sigma>)) =
     setCalls (trace \<sigma>) @
       (if isInEditMode \<sigma>
        then (case menuSettings \<sigma> of
                None \<Rightarrow> []
              | Some a \<Rightarrow> [Some (a, convertNodes f (heap \<sigma> a))])
        else [])
   \<and> (isInEditMode \<sigma> \<longrightarrow> menuSettings (leaveEditMode f \<sigma>) = None)
   \<and> length (setCalls (trace (leaveEditMode f \<sigma>))) \<le> length (setCalls (trace \<sigma>)) + 1
   \<and> trace (leaveEditMode f (leaveEditMode f \<sigma>)) = trace (leaveEditMode f \<sigma>)
   \<and> trace (hide f (leaveEditMode f \<sigma>)) = trace (leaveEditMode f \<sigma>)
   \<and> (reachable f \<sigma> \<longrightarrow> None \<notin> set (setCalls (trace \<sigma>)))"
proof -
  have n: "\<not> isInEditMode (leaveEditMode f \<sigma>)"
    by (rule isInEditMode_leaveEditMode)
  have a: "trace (leaveEditMode f (leaveEditMode f \<sigma>)) = trace (leaveEditMode f \<sigma>)"
    using n by (simp add: trace_leaveEditMode [of f "leaveEditMode f \<sigma>"])
  have b: "trace (hide f (leaveEditMode f \<sigma>)) = trace (leaveEditMode f \<sigma>)"
    using n by (simp add: hide_def leaveEditMode_def [of f "_\<lparr>container := _\<rparr>"] step_defs)
  show ?thesis
    using a b setCalls_not_null [of f \<sigma>]
    by (simp add: trace_leaveEditMode menuSettings_leaveEditMode setCalls_append
             split: option.splits)
qed

theorem set_called_once_never_null_witness:
  "isInEditMode editingEditor
   \<and> reachable sampleToINode (leaveEditMode sampleToINode editingEditor)
   \<and> setCalls (trace (leaveEditMode sampleToINode editingEditor)) =
       [Some (0, \<lparr>menus = [\<lparr>nodes = 3, menuFields = ()\<rparr>, \<lparr>nodes = 4, menuFields = ()\<rparr>],
                  settingsFields = ()\<rparr>)]
   \<and> menuSettings (leaveEditMode sampleToINode editingEditor) = None
   \<and> setCalls (trace (hide sampleToINode (leaveEditMode sampleToINode editingEditor))) =
       setCalls (trace (leaveEditMode sampleToINode editingEditor))
   \<and> None \<notin> set (setCalls (trace (leaveEditMode sampleToINode editingEditor)))"
proof -
  have r: "reachable sampleToINode (leaveEditMode sampleToINode editingEditor)"
    by (rule reachable.left [OF reachable_editingEditor])
  have s: "setCalls (trace editingEditor) = []" "heap editingEditor 0 = sampleSettings"
    by (simp_all add: sample_defs method_defs step_defs Let_def)
  from set_called_once_never_null [of sampleToINode editingEditor]
       set_called_once_never_null [of sampleToINode "leaveEditMode sampleToINode editingEditor"]
  show ?thesis
    using r s isInEditMode_editingEditor menuSettings_editingEditor
    by (simp add: sampleSettings_def sampleToINode_def convertNodes_def)
qed

end
